theory Spec2Isabelle
  imports Complex_Main "HOL-Library.Multiset" "HOL-Library.Char_ord" "HOL-Library.List_Lexorder"
begin

section \<open>Errors\<close>

text \<open>
  The two routines of \<^verbatim>\<open>function.py\<close> run inside the host application. Every
  exception that can leave them is a value of \<open>error\<close>: the exceptions the Python code
  raises itself (\<open>ValueError\<close> at line 83, \<open>IndexError\<close> from a subscript,
  \<open>AttributeError\<close> from an attribute of \<open>None\<close>), the exception of a failed
  \<open>int(...)\<close>, and \<open>HostError\<close> for whatever a call into the host's object model
  raises (the payload is the host's own description). The code catches nothing, so an
  error ends the call.
\<close>

datatype error =
    ValueError string
  | IndexError
  | AttributeError string
  | IntConversionError
  | HostError string

section \<open>The host's object model, as far as the code touches it\<close>

text \<open>
  Class values of a unique-value renderer are kept abstract (type \<open>'v\<close>): the code only
  compares them (the sort key) and passes them to \<open>int\<close>.
\<close>

record 'v item =
  item_values :: "'v list list"
  label :: string

record 'v group =
  heading :: string
  items :: "'v item list"

record 'v renderer =
  rtype :: string
  colorRamp :: "string option"
  rfields :: "string list"
  groups :: "'v group list"
  classificationField :: string
  classificationMethod :: string
  breakCount :: int

record 'v symbology =
  renderer :: "'v renderer"

record 'v layer =
  name :: string
  isBasemapLayer :: bool
  symbology :: "'v symbology"

text \<open>
  A map refers to its layers; a layer object can be changed after it was added to the map
  (line 51) and can outlive its removal from the map. Layer objects therefore live in a
  store, indexed by a layer reference, and a map holds references.
\<close>

type_synonym lref = nat

record gis_map =
  map_name :: string
  map_layers :: "lref list"

record 'v project =
  maps :: "gis_map list"
  layer_objs :: "'v layer list"

text \<open>
  What the host decides and the code cannot see is a parameter: the layers a new map
  starts with, the layer a dataset loads as, what \<open>updateRenderer\<close> makes of a
  symbology, the colour ramps a name matches, the groups the renderer holds once its
  fields are assigned, what \<open>reclassify\<close> does, and \<open>int\<close> on a class value
  (\<open>None\<close> where \<open>int\<close> raises). A host call that fails returns the host's message.
\<close>

record 'v host =
  default_layers :: "'v layer list"
  load_layer :: "string \<Rightarrow> string + 'v layer"
  update_renderer :: "string \<Rightarrow> 'v symbology \<Rightarrow> string + 'v symbology"
  color_ramps :: "string \<Rightarrow> string list"
  regroup :: "string list \<Rightarrow> 'v renderer \<Rightarrow> 'v group list"
  reclassify :: "'v renderer \<Rightarrow> string + 'v renderer"
  to_int :: "'v \<Rightarrow> int option"

section \<open>Python's \<open>str\<close> on an integer\<close>

fun digits :: "nat \<Rightarrow> string" where
  "digits n =
     (if n < 10 then [''0123456789'' ! n]
      else digits (n div 10) @ [''0123456789'' ! (n mod 10)])"

declare digits.simps [simp del]

definition str_int :: "int \<Rightarrow> string" where
  "str_int i = (if i < 0 then CHR ''-'' # digits (nat (- i)) else digits (nat i))"

text \<open>
  Reading a string of decimal digits back, to say that \<open>digits\<close> writes the number in
  base ten.
\<close>

definition digit_value :: "char \<Rightarrow> nat" where
  "digit_value c = of_char c - 48"

definition decimal_value :: "string \<Rightarrow> nat" where
  "decimal_value s = foldl (\<lambda>acc c. 10 * acc + digit_value c) 0 s"

section \<open>\<open>create_single_map\<close>\<close>

record single_map_args =
  a_map_name :: string
  a_layer_path :: string
  a_layer_name :: string
  a_renderer :: string
  a_variable_name :: string
  a_color_map :: string
  a_label_map :: "(int \<rightharpoonup> string) option"
  a_classification_method :: "string option"
  a_break_count :: "int option"

text \<open>
  The optional parameters of lines 13 to 15. \<open>label_map\<close> defaults to Python's
  \<open>None\<close>, which is the value \<open>None\<close> of the field; for the other two an absent
  argument (\<open>None\<close> here) stands for the default of the signature.
\<close>

definition classification_method_of :: "single_map_args \<Rightarrow> string" where
  "classification_method_of a =
     (case a_classification_method a of None \<Rightarrow> ''NaturalBreaks'' | Some c \<Rightarrow> c)"

definition break_count_of :: "single_map_args \<Rightarrow> int" where
  "break_count_of a = (case a_break_count a of None \<Rightarrow> 5 | Some n \<Rightarrow> n)"

text \<open>Line 49: \<open>aprx.createMap(map_name)\<close>. The new map is the last of the project.\<close>

definition createMap :: "'v host \<Rightarrow> 'v project \<Rightarrow> string \<Rightarrow> 'v project \<times> nat" where
  "createMap h p nm =
     (let n = length (layer_objs p); ds = default_layers h
      in (p\<lparr>maps := maps p @ [\<lparr>map_name = nm, map_layers = [n ..< n + length ds]\<rparr>],
            layer_objs := layer_objs p @ ds\<rparr>,
          length (maps p)))"

text \<open>Line 50: \<open>m.addDataFromPath(layer_path)\<close>; the new layer goes on top.\<close>

definition addDataFromPath ::
  "'v host \<Rightarrow> 'v project \<Rightarrow> nat \<Rightarrow> string \<Rightarrow> error + 'v project \<times> lref" where
  "addDataFromPath h p m path =
     (case load_layer h path of
        Inl e \<Rightarrow> Inl (HostError e)
      | Inr l \<Rightarrow>
          let r = length (layer_objs p); mp = maps p ! m
          in Inr (p\<lparr>maps := (maps p)[m := mp\<lparr>map_layers := r # map_layers mp\<rparr>],
                    layer_objs := layer_objs p @ [l]\<rparr>, r))"

definition set_layer :: "'v project \<Rightarrow> lref \<Rightarrow> ('v layer \<Rightarrow> 'v layer) \<Rightarrow> 'v project" where
  "set_layer p r f = p\<lparr>layer_objs := (layer_objs p)[r := f (layer_objs p ! r)]\<rparr>"

text \<open>
  Lines 54 to 56. \<open>m.listLayers()\<close> is a list of its own, taken once; the loop walks it
  and \<open>m.removeLayer(lyr)\<close> takes that layer out of the map.
\<close>

fun remove_basemaps :: "'v layer list \<Rightarrow> lref list \<Rightarrow> lref list \<Rightarrow> lref list" where
  "remove_basemaps st [] cur = cur"
| "remove_basemaps st (l # ls) cur =
     remove_basemaps st ls (if isBasemapLayer (st ! l) then remove1 l cur else cur)"

definition remove_basemap_layers :: "'v project \<Rightarrow> nat \<Rightarrow> 'v project" where
  "remove_basemap_layers p m =
     (let mp = maps p ! m
      in p\<lparr>maps := (maps p)[m := mp\<lparr>map_layers :=
              remove_basemaps (layer_objs p) (map_layers mp) (map_layers mp)\<rparr>]\<rparr>)"

text \<open>Line 69: the key \<open>g.values[0][0]\<close>; either subscript can raise.\<close>

definition first_value :: "'v item \<Rightarrow> error + 'v" where
  "first_value g =
     (case item_values g of
        [] \<Rightarrow> Inl IndexError
      | row # _ \<Rightarrow> (case row of [] \<Rightarrow> Inl IndexError | v # _ \<Rightarrow> Inr v))"

text \<open>
  \<open>list.sort(key=...)\<close> computes every key first, in list order, then sorts stably by
  the keys; an exception in a key leaves the call with that exception.
\<close>

fun item_keys :: "'v item list \<Rightarrow> error + 'v list" where
  "item_keys [] = Inr []"
| "item_keys (g # gs) =
     (case first_value g of
        Inl e \<Rightarrow> Inl e
      | Inr k \<Rightarrow> (case item_keys gs of Inl e \<Rightarrow> Inl e | Inr ks \<Rightarrow> Inr (k # ks)))"

definition sort_items :: "('v::linorder) item list \<Rightarrow> error + 'v item list" where
  "sort_items gs =
     (case item_keys gs of
        Inl e \<Rightarrow> Inl e
      | Inr ks \<Rightarrow> Inr (map snd (sort_key fst (zip ks gs))))"

text \<open>
  Lines 71 to 73. \<open>label_map.get\<close> is looked up after \<open>int(...)\<close> returned and before
  \<open>str(val)\<close> is evaluated; on \<open>None\<close> it raises \<open>AttributeError\<close>.
\<close>

definition dict_get :: "('k \<rightharpoonup> 'a) \<Rightarrow> 'k \<Rightarrow> 'a \<Rightarrow> 'a" where
  "dict_get d k dflt = (case d k of Some x \<Rightarrow> x | None \<Rightarrow> dflt)"

fun relabel ::
  "'v host \<Rightarrow> (int \<rightharpoonup> string) option \<Rightarrow> 'v item list \<Rightarrow> error + 'v item list" where
  "relabel h lm [] = Inr []"
| "relabel h lm (it # its) =
     (case first_value it of
        Inl e \<Rightarrow> Inl e
      | Inr x \<Rightarrow>
          (case to_int h x of
             None \<Rightarrow> Inl IntConversionError
           | Some val \<Rightarrow>
               (case lm of
                  None \<Rightarrow> Inl (AttributeError ''get'')
                | Some d \<Rightarrow>
                    (case relabel h lm its of
                       Inl e \<Rightarrow> Inl e
                     | Inr its' \<Rightarrow> Inr (it\<lparr>label := dict_get d val (str_int val)\<rparr> # its')))))"

text \<open>
  Lines 49 to 62, up to the branch on the renderer: the objects the rest of the function
  works on. \<open>layer.symbology\<close> hands out a symbology of its own, which line 85 assigns
  back.
\<close>

record 'v locals =
  l_m :: nat
  l_layer :: lref
  l_sym :: "'v symbology"

definition prepare_map ::
  "'v host \<Rightarrow> 'v project \<Rightarrow> single_map_args \<Rightarrow> 'v project \<times> (error + 'v locals)" where
  "prepare_map h aprx a =
     (let (p1, m) = createMap h aprx (a_map_name a)
      in case addDataFromPath h p1 m (a_layer_path a) of
           Inl e \<Rightarrow> (p1, Inl e)
         | Inr (p2, lyr) \<Rightarrow>
             let p3 = set_layer p2 lyr (\<lambda>l. l\<lparr>name := a_layer_name a\<rparr>);
                 p4 = remove_basemap_layers p3 m;
                 sy = symbology (layer_objs p4 ! lyr)
             in case update_renderer h (a_renderer a) sy of
                  Inl e \<Rightarrow> (p4, Inl (HostError e))
                | Inr sym1 \<Rightarrow>
                    (case color_ramps h (a_color_map a) of
                       [] \<Rightarrow> (p4, Inl IndexError)
                     | ramp # _ \<Rightarrow>
                         (p4, Inr \<lparr>l_m = m, l_layer = lyr,
                                  l_sym = sym1\<lparr>renderer :=
                                    (renderer sym1)\<lparr>colorRamp := Some ramp\<rparr>\<rparr>\<rparr>)))"

text \<open>Lines 64 to 83: the branch on the renderer.\<close>

definition apply_renderer ::
  "('v::linorder) host \<Rightarrow> single_map_args \<Rightarrow> 'v symbology \<Rightarrow> error + 'v symbology" where
  "apply_renderer h a sy =
     (if a_renderer a = ''UniqueValueRenderer'' then
        let r0 = renderer sy;
            r1 = r0\<lparr>rfields := [a_variable_name a],
                    groups := regroup h [a_variable_name a] r0\<rparr>
        in case groups r1 of
             [] \<Rightarrow> Inl IndexError
           | g # gs \<Rightarrow>
               (case sort_items (items g) of
                  Inl e \<Rightarrow> Inl e
                | Inr sorted_items \<Rightarrow>
                    (case relabel h (a_label_map a) sorted_items of
                       Inl e \<Rightarrow> Inl e
                     | Inr its \<Rightarrow>
                         Inr (sy\<lparr>renderer := r1\<lparr>groups := g\<lparr>items := its\<rparr> # gs\<rparr>\<rparr>)))
      else if a_renderer a = ''GraduatedColorsRenderer'' then
        (case reclassify h
                ((renderer sy)\<lparr>classificationField := a_variable_name a,
                                classificationMethod := classification_method_of a,
                                breakCount := break_count_of a\<rparr>) of
           Inl e \<Rightarrow> Inl (HostError e)
         | Inr r \<Rightarrow> Inr (sy\<lparr>renderer := r\<rparr>))
      else Inl (ValueError (''Unsupported renderer: '' @ a_renderer a)))"

text \<open>
  The whole function: the project as the call leaves it, and either the exception or
  the pair \<open>(m, layer)\<close> of line 86.
\<close>

definition create_single_map ::
  "('v::linorder) host \<Rightarrow> 'v project \<Rightarrow> single_map_args \<Rightarrow> 'v project \<times> (error + nat \<times> lref)"
  where
  "create_single_map h aprx a =
     (case prepare_map h aprx a of
        (p, Inl e) \<Rightarrow> (p, Inl e)
      | (p, Inr loc) \<Rightarrow>
          (case apply_renderer h a (l_sym loc) of
             Inl e \<Rightarrow> (p, Inl e)
           | Inr sy \<Rightarrow>
               (set_layer p (l_layer loc) (\<lambda>l. l\<lparr>symbology := sy\<rparr>),
                Inr (l_m loc, l_layer loc))))"

text \<open>The layers of the new map before line 54: the loaded one on top of the default ones.\<close>

definition new_layers :: "'v host \<Rightarrow> 'v project \<Rightarrow> lref list" where
  "new_layers h aprx =
     (length (layer_objs aprx) + length (default_layers h)) #
     [length (layer_objs aprx) ..< length (layer_objs aprx) + length (default_layers h)]"

text \<open>
  The project once lines 49 to 56 have run with the dataset loaded as \<open>l\<close>: one more
  map, holding the layers that are not basemap layers, and the loaded layer under its new
  name. Line 62 puts the colour ramp into the symbology.
\<close>

definition prepared_project :: "'v host \<Rightarrow> 'v project \<Rightarrow> single_map_args \<Rightarrow> 'v layer \<Rightarrow> 'v project" where
  "prepared_project h aprx a l =
     (let objs = layer_objs aprx @ default_layers h @ [l\<lparr>name := a_layer_name a\<rparr>]
      in \<lparr>maps = maps aprx @
             [\<lparr>map_name = a_map_name a,
               map_layers = filter (\<lambda>x. \<not> isBasemapLayer (objs ! x)) (new_layers h aprx)\<rparr>],
           layer_objs = objs\<rparr>)"

definition with_ramp :: "'v symbology \<Rightarrow> string \<Rightarrow> 'v symbology" where
  "with_ramp sy1 ramp = sy1\<lparr>renderer := (renderer sy1)\<lparr>colorRamp := Some ramp\<rparr>\<rparr>"

text \<open>
  The sort key as a total function; it is the value of \<open>first_value\<close> wherever that
  returns one.
\<close>

definition key_of :: "'v item \<Rightarrow> 'v" where
  "key_of g = hd (hd (item_values g))"

text \<open>What one round of the loop of lines 71 to 73 makes of an item.\<close>

definition relabelled ::
  "'v host \<Rightarrow> (int \<rightharpoonup> string) option \<Rightarrow> 'v item \<Rightarrow> 'v item \<Rightarrow> bool" where
  "relabelled h lm it it' =
     (\<exists>x val d. lm = Some d \<and> first_value it = Inr x \<and> to_int h x = Some val \<and>
        it' = it\<lparr>label := dict_get d val (str_int val)\<rparr>)"

section \<open>\<open>create_standard_layout\<close>\<close>

text \<open>
  Page coordinates and sizes are the decimal literals of the source; the code passes them
  on and never computes with them, so they are kept as exact decimals.
\<close>

type_synonym point = "rat \<times> rat"

record extent =
  XMin :: rat
  YMin :: rat
  XMax :: rat
  YMax :: rat

text \<open>
  The layout's definition (lines 144 to 148): a list of elements, each with the name of its
  class and, where it has one, a graphic frame with a border symbol.
\<close>

record graphic_frame =
  borderSymbol :: "string option"

record cim_element =
  cim_type :: string
  graphicFrame :: "graphic_frame option"

record legend_item =
  item_layer :: string
  showLayerName :: bool
  showHeading :: bool

record map_frame =
  mf_rect :: extent
  mf_map :: nat
  camera_extent :: "extent option"

record text_element =
  txt_position :: point
  txt_geometry :: string
  txt_text :: string
  txt_size :: rat
  style_item :: string
  txt_anchor :: string
  fontFamilyName :: string

text \<open>
  A map surround (legend, scale bar, north arrow). Width and height are \<open>None\<close> while
  they are the host's; \<open>ms_items\<close> is the item list of the element's definition.
\<close>

record map_surround =
  ms_position :: point
  ms_type :: string
  ms_style :: string
  elementWidth :: "rat option"
  elementHeight :: "rat option"
  ms_items :: "legend_item list"

record layout =
  lyt_name :: string
  page_width :: rat
  page_height :: rat
  page_units :: string
  lyt_cim :: "cim_element list"
  lyt_mapframe :: "map_frame option"
  lyt_texts :: "text_element list"
  lyt_surrounds :: "map_surround list"

text \<open>
  The host's side of the layout calls: the elements of the layout's definition once the
  map frame is placed (or the host's refusal to place it), the extent of a layer in a
  frame, the style items a lookup finds, and the items a new legend is given for the
  frame's map.
\<close>

record layout_host =
  frame_definition :: "extent \<Rightarrow> nat \<Rightarrow> string + cim_element list"
  layer_extent :: "nat \<Rightarrow> lref \<Rightarrow> extent"
  style_items :: "string \<Rightarrow> string \<Rightarrow> string \<Rightarrow> string list"
  new_legend_items :: "nat \<Rightarrow> legend_item list"

record layout_args =
  la_map_obj :: nat
  la_layer :: lref
  la_layout_name :: string
  la_title_text :: string
  la_mapframe_extent :: "extent option"
  la_title_position :: "point option"
  la_legend_position :: "point option"
  la_legend_size :: "point option"
  la_scalebar_position :: "point option"
  la_north_arrow_position :: "point option"

text \<open>
  Lines 96 to 101 and 138 to 139. \<open>mapframe_extent\<close> defaults to Python's \<open>None\<close>,
  which line 138 replaces; for the five tuples an absent argument (\<open>None\<close> here) stands
  for the default of the signature.
\<close>

definition mapframe_extent_of :: "layout_args \<Rightarrow> extent" where
  "mapframe_extent_of a =
     (case la_mapframe_extent a of
        None \<Rightarrow> \<lparr>XMin = 0.885, YMin = 0.665, XMax = 7.385, YMax = 5.165\<rparr>
      | Some e \<Rightarrow> e)"

definition title_position_of :: "layout_args \<Rightarrow> point" where
  "title_position_of a = (case la_title_position a of None \<Rightarrow> (4.1215, 5.539) | Some p \<Rightarrow> p)"

definition legend_position_of :: "layout_args \<Rightarrow> point" where
  "legend_position_of a = (case la_legend_position a of None \<Rightarrow> (0.1464, 2.2927) | Some p \<Rightarrow> p)"

definition legend_size_of :: "layout_args \<Rightarrow> point" where
  "legend_size_of a = (case la_legend_size a of None \<Rightarrow> (1.2357, 1.7131) | Some p \<Rightarrow> p)"

definition scalebar_position_of :: "layout_args \<Rightarrow> point" where
  "scalebar_position_of a =
     (case la_scalebar_position a of None \<Rightarrow> (2.7713, 0.2371) | Some p \<Rightarrow> p)"

definition north_arrow_position_of :: "layout_args \<Rightarrow> point" where
  "north_arrow_position_of a =
     (case la_north_arrow_position a of None \<Rightarrow> (7.2704, 4.8844) | Some p \<Rightarrow> p)"

text \<open>
  Lines 145 to 147. An element of class \<open>CIMMapFrame\<close> whose \<open>graphicFrame\<close> is
  \<open>None\<close> makes the assignment raise \<open>AttributeError\<close>.
\<close>

fun strip_borders :: "cim_element list \<Rightarrow> error + cim_element list" where
  "strip_borders [] = Inr []"
| "strip_borders (elm # elms) =
     (if cim_type elm = ''CIMMapFrame'' then
        (case graphicFrame elm of
           None \<Rightarrow> Inl (AttributeError ''borderSymbol'')
         | Some gf \<Rightarrow>
             (case strip_borders elms of
                Inl e \<Rightarrow> Inl e
              | Inr elms' \<Rightarrow>
                  Inr (elm\<lparr>graphicFrame := Some (gf\<lparr>borderSymbol := None\<rparr>)\<rparr> # elms')))
      else
        (case strip_borders elms of Inl e \<Rightarrow> Inl e | Inr elms' \<Rightarrow> Inr (elm # elms')))"

text \<open>Lines 180 to 182.\<close>

fun hide_names :: "legend_item list \<Rightarrow> legend_item list" where
  "hide_names [] = []"
| "hide_names (item # rest) =
     item\<lparr>showLayerName := False, showHeading := False\<rparr> # hide_names rest"

text \<open>\<open>aprx.listStyleItems(...)[0]\<close>: the first style item, or \<open>IndexError\<close>.\<close>

definition first_style :: "layout_host \<Rightarrow> string \<Rightarrow> string \<Rightarrow> error + string" where
  "first_style h cls nm =
     (case style_items h ''ArcGIS 2D'' cls nm of [] \<Rightarrow> Inl IndexError | s # _ \<Rightarrow> Inr s)"

text \<open>\<open>layout.createMapSurroundElement(arcpy.Point(*position), kind, mf, style)\<close>.\<close>

definition createMapSurroundElement ::
  "layout_host \<Rightarrow> layout \<Rightarrow> point \<Rightarrow> string \<Rightarrow> string \<Rightarrow> layout \<times> map_surround" where
  "createMapSurroundElement h lyt pos kind style =
     (let ms = \<lparr>ms_position = pos, ms_type = kind, ms_style = style,
                elementWidth = None, elementHeight = None,
                ms_items = (if kind = ''LEGEND''
                            then (case lyt_mapframe lyt of
                                    None \<Rightarrow> []
                                  | Some mf \<Rightarrow> new_legend_items h (mf_map mf))
                            else [])\<rparr>
      in (lyt\<lparr>lyt_surrounds := lyt_surrounds lyt @ [ms]\<rparr>, ms))"

text \<open>
  The function. The legend is the first surround of the layout it returns, the scale bar
  the second, the north arrow the third; the title is its only text element. Lines 176
  to 183 change the legend after the layout took it in: the layout holds the legend as
  these lines leave it.
\<close>

definition create_standard_layout :: "layout_host \<Rightarrow> layout_args \<Rightarrow> error + layout" where
  "create_standard_layout h a =
     (let layout0 = \<lparr>lyt_name = la_layout_name a, page_width = 8.27, page_height = 5.83,
                     page_units = ''INCH'', lyt_cim = [], lyt_mapframe = None,
                     lyt_texts = [], lyt_surrounds = []\<rparr>;
          mapframe_extent = mapframe_extent_of a
      in case frame_definition h mapframe_extent (la_map_obj a) of
           Inl e \<Rightarrow> Inl (HostError e)
         | Inr elements \<Rightarrow>
             let mf = \<lparr>mf_rect = mapframe_extent, mf_map = la_map_obj a, camera_extent = None\<rparr>;
                 layout1 = layout0\<lparr>lyt_cim := elements, lyt_mapframe := Some mf\<rparr>
             in case strip_borders (lyt_cim layout1) of
                  Inl e \<Rightarrow> Inl e
                | Inr lyt_cim' \<Rightarrow>
                    let layout2 = layout1\<lparr>lyt_cim := lyt_cim'\<rparr>;
                        mf' = mf\<lparr>camera_extent :=
                                 Some (layer_extent h (la_map_obj a) (la_layer a))\<rparr>;
                        layout3 = layout2\<lparr>lyt_mapframe := Some mf'\<rparr>
                    in case first_style h ''TEXT'' ''Title (Serif)'' of
                         Inl e \<Rightarrow> Inl e
                       | Inr txt_style \<Rightarrow>
                           let title = \<lparr>txt_position = title_position_of a,
                                        txt_geometry = ''POINT'', txt_text = la_title_text a,
                                        txt_size = 20, style_item = txt_style,
                                        txt_anchor = ''Center_Point'',
                                        fontFamilyName = ''Garamond''\<rparr>;
                               layout4 = layout3\<lparr>lyt_texts := lyt_texts layout3 @ [title]\<rparr>
                           in case first_style h ''LEGEND'' ''Legend 1'' of
                                Inl e \<Rightarrow> Inl e
                              | Inr legend_style \<Rightarrow>
                                  let legend0 = snd (createMapSurroundElement h layout4
                                        (legend_position_of a) ''LEGEND'' legend_style);
                                      legend = legend0
                                        \<lparr>elementWidth := Some (fst (legend_size_of a)),
                                         elementHeight := Some (snd (legend_size_of a)),
                                         ms_items := hide_names (ms_items legend0)\<rparr>;
                                      layout5 = layout4
                                        \<lparr>lyt_surrounds := lyt_surrounds layout4 @ [legend]\<rparr>
                                  in case first_style h ''SCALE_BAR'' ''Scale Line 1 Metric'' of
                                       Inl e \<Rightarrow> Inl e
                                     | Inr scalebar_style \<Rightarrow>
                                         let layout6 = fst (createMapSurroundElement h layout5
                                               (scalebar_position_of a) ''SCALE_BAR''
                                               scalebar_style)
                                         in case first_style h ''NORTH_ARROW'' ''ArcGIS North 1'' of
                                              Inl e \<Rightarrow> Inl e
                                            | Inr north_arrow_style \<Rightarrow>
                                                Inr (fst (createMapSurroundElement h layout6
                                                  (north_arrow_position_of a) ''NORTH_ARROW''
                                                  north_arrow_style)))"

section \<open>A concrete host and project, for evaluation\<close>

definition blank_symbology :: "'v symbology" where
  "blank_symbology = \<lparr>renderer = \<lparr>rtype = ''SimpleRenderer'', colorRamp = None, rfields = [],
      groups = [], classificationField = [], classificationMethod = [], breakCount = 0\<rparr>\<rparr>"

definition class_item :: "int \<Rightarrow> int item" where
  "class_item v = \<lparr>item_values = [[v]], label = ''?''\<rparr>"

definition example_host :: "int host" where
  "example_host =
     \<lparr>default_layers = [\<lparr>name = ''Topographic'', isBasemapLayer = True, symbology = blank_symbology\<rparr>],
      load_layer = (\<lambda>path. if path = [] then Inl ''no such dataset''
                     else Inr \<lparr>name = path, isBasemapLayer = False, symbology = blank_symbology\<rparr>),
      update_renderer = (\<lambda>r s. Inr (s\<lparr>renderer := (renderer s)\<lparr>rtype := r\<rparr>\<rparr>)),
      color_ramps = (\<lambda>n. if n = ''Viridis'' then [''Viridis''] else []),
      regroup = (\<lambda>fs r. [\<lparr>heading = ''g0'', items = [class_item 3, class_item 1, class_item 2]\<rparr>,
                         \<lparr>heading = ''g1'', items = [class_item 9, class_item 7]\<rparr>]),
      reclassify = (\<lambda>r. Inr r),
      to_int = Some\<rparr>"

definition empty_project :: "int project" where
  "empty_project = \<lparr>maps = [], layer_objs = []\<rparr>"

definition uv_args :: single_map_args where
  "uv_args = \<lparr>a_map_name = ''M'', a_layer_path = ''d.shp'', a_layer_name = ''Land use'',
     a_renderer = ''UniqueValueRenderer'', a_variable_name = ''cls'', a_color_map = ''Viridis'',
     a_label_map = Some [1 \<mapsto> ''Forest''], a_classification_method = None, a_break_count = None\<rparr>"

text \<open>An unsupported renderer, with a colour ramp the host has and with one it has not.\<close>

definition foo_args :: single_map_args where
  "foo_args = uv_args\<lparr>a_renderer := ''Foo''\<rparr>"

definition foo_no_ramp_args :: single_map_args where
  "foo_no_ramp_args = uv_args\<lparr>a_renderer := ''Foo'', a_color_map := ''NoSuchRamp''\<rparr>"

text \<open>
  The unique-value call without a label mapping, and a host whose class values are text,
  as the categories of a land-use layer are: \<open>int\<close> raises on them.
\<close>

definition none_args :: single_map_args where
  "none_args = uv_args\<lparr>a_label_map := None\<rparr>"

definition text_host :: "string host" where
  "text_host =
     \<lparr>default_layers = [],
      load_layer = (\<lambda>path. Inr \<lparr>name = path, isBasemapLayer = False, symbology = blank_symbology\<rparr>),
      update_renderer = (\<lambda>r s. Inr (s\<lparr>renderer := (renderer s)\<lparr>rtype := r\<rparr>\<rparr>)),
      color_ramps = (\<lambda>n. [n]),
      regroup = (\<lambda>fs r. [\<lparr>heading = ''zoning'',
                           items = [\<lparr>item_values = [[''Residential'']], label = ''Residential''\<rparr>]\<rparr>]),
      reclassify = (\<lambda>r. Inr r),
      to_int = (\<lambda>s. if s = ''1'' then Some 1 else None)\<rparr>"

definition empty_text_project :: "string project" where
  "empty_text_project = \<lparr>maps = [], layer_objs = []\<rparr>"

text \<open>
  A layout host whose new map frame has a border, a call of \<open>create_standard_layout\<close>
  with every optional parameter left out, and a graduated-colours call with the
  classification parameters left out.
\<close>

definition example_layout_host :: layout_host where
  "example_layout_host =
     \<lparr>frame_definition = (\<lambda>e m.
        Inr [\<lparr>cim_type = ''CIMGraphicElement'', graphicFrame = None\<rparr>,
             \<lparr>cim_type = ''CIMMapFrame'',
              graphicFrame = Some \<lparr>borderSymbol = Some ''Black Outline (1pt)''\<rparr>\<rparr>]),
      layer_extent = (\<lambda>m l. \<lparr>XMin = 0, YMin = 0, XMax = 100, YMax = 50\<rparr>),
      style_items = (\<lambda>s c n. if s = ''ArcGIS 2D'' then [n] else []),
      new_legend_items = (\<lambda>m.
        [\<lparr>item_layer = ''Land use'', showLayerName = True, showHeading = True\<rparr>,
         \<lparr>item_layer = ''Roads'', showLayerName = True, showHeading = False\<rparr>])\<rparr>"

definition example_layout_args :: layout_args where
  "example_layout_args =
     \<lparr>la_map_obj = 0, la_layer = 1, la_layout_name = ''Sheet'', la_title_text = ''Land use'',
      la_mapframe_extent = None, la_title_position = None, la_legend_position = None,
      la_legend_size = None, la_scalebar_position = None, la_north_arrow_position = None\<rparr>"

definition graduated_args :: single_map_args where
  "graduated_args = uv_args\<lparr>a_renderer := ''GraduatedColorsRenderer''\<rparr>"

section \<open>Auxiliary facts about \<open>create_single_map\<close>\<close>

text \<open>\<open>str\<close> of an integer is its decimal numeral, with a minus sign below zero.\<close>

lemma digit_value_upto: "\<forall>n \<in> set [0 ..< 10]. digit_value (''0123456789'' ! n) = n"
  by code_simp

lemma digit_value_nth: "n < 10 \<Longrightarrow> digit_value (''0123456789'' ! n) = n"
  using digit_value_upto by simp

lemma decimal_value_digits: "decimal_value (digits n) = n"
proof (induction n rule: digits.induct)
  case (1 n)
  show ?case
  proof (cases "n < 10")
    case True
    then show ?thesis
      by (subst digits.simps) (simp add: decimal_value_def digit_value_nth)
  next
    case False
    then have "decimal_value (digits (n div 10)) = n div 10"
      using "1.IH" by simp
    with False show ?thesis
      by (subst digits.simps) (simp add: decimal_value_def digit_value_nth)
  qed
qed

lemma str_int_nonneg: "str_int (int n) = digits n"
  by (simp add: str_int_def)

lemma str_int_neg: "i < 0 \<Longrightarrow> str_int i = CHR ''-'' # digits (nat (- i))"
  by (simp add: str_int_def)

lemma filter_neq_notin: "l \<notin> set cur \<Longrightarrow> filter (\<lambda>x. x \<noteq> l) cur = cur"
  by (induction cur) auto

lemma distinct_remove1_filter:
  "distinct cur \<Longrightarrow> remove1 l cur = filter (\<lambda>x. x \<noteq> l) cur"
  by (induction cur) (auto simp: filter_neq_notin)

lemma remove_basemaps_filter:
  "distinct cur \<Longrightarrow>
   remove_basemaps st ls cur = filter (\<lambda>x. \<not> (x \<in> set ls \<and> isBasemapLayer (st ! x))) cur"
proof (induction ls arbitrary: cur)
  case Nil
  then show ?case by simp
next
  case (Cons l ls)
  show ?case
  proof (cases "isBasemapLayer (st ! l)")
    case True
    have "distinct (remove1 l cur)" using Cons.prems by simp
    then show ?thesis
      using True Cons.IH [of "remove1 l cur"] Cons.prems
      by (auto simp: distinct_remove1_filter intro: filter_cong)
  next
    case False
    then show ?thesis using Cons.IH [OF Cons.prems] by (auto intro: filter_cong)
  qed
qed

lemma remove_basemaps_all:
  "distinct cur \<Longrightarrow> remove_basemaps st cur cur = filter (\<lambda>x. \<not> isBasemapLayer (st ! x)) cur"
  by (simp add: remove_basemaps_filter cong: filter_cong)

lemma remove_basemap_layers_filter:
  "distinct (map_layers (maps p ! m)) \<Longrightarrow>
   remove_basemap_layers p m =
     p\<lparr>maps := (maps p)[m := (maps p ! m)\<lparr>map_layers :=
          filter (\<lambda>x. \<not> isBasemapLayer (layer_objs p ! x)) (map_layers (maps p ! m))\<rparr>]\<rparr>"
  by (simp add: remove_basemap_layers_def Let_def remove_basemaps_all)

lemma prepare_map_eq:
  assumes l: "load_layer h (a_layer_path a) = Inr l"
  shows "prepare_map h aprx a =
      (case update_renderer h (a_renderer a) (symbology l) of
         Inl e \<Rightarrow> (prepared_project h aprx a l, Inl (HostError e))
       | Inr sy1 \<Rightarrow>
           (case color_ramps h (a_color_map a) of
              [] \<Rightarrow> (prepared_project h aprx a l, Inl IndexError)
            | ramp # _ \<Rightarrow>
                (prepared_project h aprx a l,
                 Inr \<lparr>l_m = length (maps aprx),
                      l_layer = length (layer_objs aprx) + length (default_layers h),
                      l_sym = with_ramp sy1 ramp\<rparr>)))"
proof -
  define n where "n = length (layer_objs aprx)"
  define k where "k = length (default_layers h)"
  define p2 :: "'a project" where
    "p2 = \<lparr>maps = maps aprx @ [\<lparr>map_name = a_map_name a, map_layers = (n + k) # [n ..< n + k]\<rparr>],
           layer_objs = layer_objs aprx @ default_layers h @ [l]\<rparr>"
  define p3 :: "'a project" where
    "p3 = \<lparr>maps = maps aprx @ [\<lparr>map_name = a_map_name a, map_layers = (n + k) # [n ..< n + k]\<rparr>],
           layer_objs = layer_objs aprx @ default_layers h @ [l\<lparr>name := a_layer_name a\<rparr>]\<rparr>"
  have add: "addDataFromPath h (fst (createMap h aprx (a_map_name a))) (length (maps aprx))
               (a_layer_path a) = Inr (p2, n + k)"
    by (simp add: addDataFromPath_def createMap_def Let_def l n_def k_def p2_def)
  have sl: "set_layer p2 (n + k) (\<lambda>l. l\<lparr>name := a_layer_name a\<rparr>) = p3"
    by (simp add: set_layer_def p2_def p3_def n_def k_def list_update_append nth_append)
  have rb: "remove_basemap_layers p3 (length (maps aprx)) = prepared_project h aprx a l"
    by (subst remove_basemap_layers_filter)
       (simp_all add: p3_def prepared_project_def new_layers_def n_def k_def Let_def)
  have sy: "symbology (layer_objs (prepared_project h aprx a l) ! (n + k)) = symbology l"
    by (simp add: prepared_project_def Let_def n_def k_def nth_append)
  show ?thesis
    unfolding prepare_map_def
    using add sl rb sy
    by (simp add: createMap_def Let_def split_beta with_ramp_def n_def k_def
        split: sum.splits list.splits)
qed

lemma prepare_map_load_fails:
  assumes "load_layer h (a_layer_path a) = Inl e"
  shows "snd (prepare_map h aprx a) = Inl (HostError e)"
  using assms by (simp add: prepare_map_def createMap_def addDataFromPath_def Let_def)

lemma prepare_map_Inr:
  assumes "prepare_map h aprx a = (p, Inr loc)"
  shows "\<exists>l sy1 ramp rest.
    load_layer h (a_layer_path a) = Inr l \<and>
    update_renderer h (a_renderer a) (symbology l) = Inr sy1 \<and>
    color_ramps h (a_color_map a) = ramp # rest \<and>
    p = prepared_project h aprx a l \<and>
    loc = \<lparr>l_m = length (maps aprx),
           l_layer = length (layer_objs aprx) + length (default_layers h),
           l_sym = with_ramp sy1 ramp\<rparr>"
proof (cases "load_layer h (a_layer_path a)")
  case (Inl e)
  from prepare_map_load_fails [OF this, of aprx] assms show ?thesis by simp
next
  case (Inr l)
  from assms show ?thesis
    unfolding prepare_map_eq [OF Inr]
    by (auto simp: Inr split: sum.splits list.splits)
qed

lemma prepared_project_layer:
  "layer_objs (prepared_project h aprx a l) !
     (length (layer_objs aprx) + length (default_layers h)) = l\<lparr>name := a_layer_name a\<rparr>"
  by (simp add: prepared_project_def Let_def nth_append)

lemma prepared_project_length:
  "length (layer_objs (prepared_project h aprx a l)) =
     Suc (length (layer_objs aprx) + length (default_layers h))"
  by (simp add: prepared_project_def Let_def)

lemma prepared_project_maps:
  "maps (prepared_project h aprx a l) ! length (maps aprx) =
     \<lparr>map_name = a_map_name a,
       map_layers = filter (\<lambda>x. \<not> isBasemapLayer (layer_objs (prepared_project h aprx a l) ! x))
         (new_layers h aprx)\<rparr>"
  "length (maps (prepared_project h aprx a l)) = Suc (length (maps aprx))"
  by (simp_all add: prepared_project_def Let_def)

lemma new_layers_bound:
  "r \<in> set (new_layers h aprx) \<Longrightarrow> r < Suc (length (layer_objs aprx) + length (default_layers h))"
  by (auto simp: new_layers_def)

lemma create_single_map_Inr:
  assumes "create_single_map h aprx a = (p, Inr res)"
  shows "\<exists>p0 loc sy.
           prepare_map h aprx a = (p0, Inr loc) \<and>
           apply_renderer h a (l_sym loc) = Inr sy \<and>
           p = set_layer p0 (l_layer loc) (\<lambda>l. l\<lparr>symbology := sy\<rparr>) \<and>
           res = (l_m loc, l_layer loc)"
  using assms by (auto simp: create_single_map_def split: prod.splits sum.splits)

lemma create_single_map_eq:
  assumes "load_layer h (a_layer_path a) = Inr l"
      and "update_renderer h (a_renderer a) (symbology l) = Inr sy1"
      and "color_ramps h (a_color_map a) = ramp # rest"
  shows "create_single_map h aprx a =
     (case apply_renderer h a (with_ramp sy1 ramp) of
        Inl e \<Rightarrow> (prepared_project h aprx a l, Inl e)
      | Inr sy \<Rightarrow>
          (set_layer (prepared_project h aprx a l)
             (length (layer_objs aprx) + length (default_layers h)) (\<lambda>l. l\<lparr>symbology := sy\<rparr>),
           Inr (length (maps aprx), length (layer_objs aprx) + length (default_layers h))))"
  by (simp add: create_single_map_def prepare_map_eq [OF assms(1)] assms(2,3) split: sum.splits)

lemma prepare_map_fails_or:
  "(\<exists>p e. prepare_map h aprx a = (p, Inl e)) \<or> (\<exists>p loc. prepare_map h aprx a = (p, Inr loc))"
  by (metis prod.exhaust_sel sum.exhaust_sel sum.collapse surj_pair obj_sumE)

lemma apply_renderer_unsupported:
  "a_renderer a \<noteq> ''UniqueValueRenderer'' \<Longrightarrow> a_renderer a \<noteq> ''GraduatedColorsRenderer'' \<Longrightarrow>
   apply_renderer h a sy = Inl (ValueError (''Unsupported renderer: '' @ a_renderer a))"
  by (simp add: apply_renderer_def)

lemma prepare_map_Inl:
  assumes "prepare_map h aprx a = (p, Inl e)"
  shows "e = IndexError \<or> (\<exists>msg. e = HostError msg)"
proof (cases "load_layer h (a_layer_path a)")
  case (Inl msg)
  from prepare_map_load_fails [OF this, of aprx] assms show ?thesis by simp
next
  case (Inr l)
  from assms show ?thesis
    unfolding prepare_map_eq [OF Inr]
    by (auto split: sum.splits list.splits)
qed

lemma first_value_key: "first_value g = Inr v \<Longrightarrow> key_of g = v"
  by (auto simp: first_value_def key_of_def split: list.splits)

lemma item_keys_Inr:
  "item_keys gs = Inr ks \<Longrightarrow> ks = map key_of gs \<and> (\<forall>g \<in> set gs. first_value g = Inr (key_of g))"
proof (induction gs arbitrary: ks)
  case Nil
  then show ?case by simp
next
  case (Cons g gs)
  then show ?case
    by (auto split: sum.splits dest: first_value_key)
qed

lemma item_keys_map:
  "\<forall>g \<in> set gs. first_value g = Inr (key_of g) \<Longrightarrow> item_keys gs = Inr (map key_of gs)"
  by (induction gs) auto

lemma insort_key_tagged:
  "insort_key fst (f x, x) (map (\<lambda>g. (f g, g)) ys) = map (\<lambda>g. (f g, g)) (insort_key f x ys)"
  by (induction ys) auto

lemma sort_key_tagged:
  "sort_key fst (map (\<lambda>g. (f g, g)) gs) = map (\<lambda>g. (f g, g)) (sort_key f gs)"
  by (induction gs) (auto simp: insort_key_tagged)

lemma zip_map_self: "zip (map f gs) gs = map (\<lambda>g. (f g, g)) gs"
  by (induction gs) auto

lemma sort_items_Inr:
  assumes "sort_items gs = Inr ys"
  shows "ys = sort_key key_of gs"
proof -
  from assms obtain ks where ks: "item_keys gs = Inr ks" and ys: "ys = map snd (sort_key fst (zip ks gs))"
    by (auto simp: sort_items_def split: sum.splits)
  from item_keys_Inr [OF ks] have "ks = map key_of gs" by simp
  then show ?thesis
    by (simp add: ys zip_map_self sort_key_tagged comp_def)
qed

lemma sort_items_keys:
  assumes "sort_items gs = Inr ys"
  shows "item_keys ys = Inr (map key_of ys)"
proof -
  from assms obtain ks where ks: "item_keys gs = Inr ks"
    by (auto simp: sort_items_def split: sum.splits)
  from item_keys_Inr [OF ks] sort_items_Inr [OF assms] show ?thesis
    by (intro item_keys_map) simp
qed

lemma relabel_Inr:
  "relabel h lm its = Inr its' \<Longrightarrow> list_all2 (relabelled h lm) its its'"
proof (induction its arbitrary: its')
  case Nil
  then show ?case by simp
next
  case (Cons it its)
  from Cons.prems obtain x val d rest where
    "first_value it = Inr x" "to_int h x = Some val" "lm = Some d" and
    rest: "relabel h lm its = Inr rest" and
    its': "its' = it\<lparr>label := dict_get d val (str_int val)\<rparr> # rest"
    by (auto split: sum.splits option.splits)
  then have "relabelled h lm it (it\<lparr>label := dict_get d val (str_int val)\<rparr>)"
    by (auto simp: relabelled_def)
  with Cons.IH [OF rest] show ?case
    by (simp add: its')
qed

lemma relabelled_values: "relabelled h lm it it' \<Longrightarrow> item_values it' = item_values it"
  by (auto simp: relabelled_def)

lemma relabel_values:
  assumes "relabel h lm its = Inr its'"
  shows "map item_values its' = map item_values its"
proof -
  have "list_all2 (\<lambda>it it'. item_values it' = item_values it) its its'"
    using relabel_Inr [OF assms] by (rule list_all2_mono) (rule relabelled_values)
  then show ?thesis
    by (induction rule: list_all2_induct) auto
qed

lemma apply_renderer_unique:
  assumes "apply_renderer h a sy = Inr sy'" and "a_renderer a = ''UniqueValueRenderer''"
  shows "\<exists>g gs its.
           regroup h [a_variable_name a] (renderer sy) = g # gs \<and>
           sort_items (items g) = Inr (sort_key key_of (items g)) \<and>
           relabel h (a_label_map a) (sort_key key_of (items g)) = Inr its \<and>
           sy' = sy\<lparr>renderer := (renderer sy)\<lparr>rfields := [a_variable_name a],
                                               groups := g\<lparr>items := its\<rparr> # gs\<rparr>\<rparr>"
  using assms
  by (auto simp: apply_renderer_def Let_def split: list.splits sum.splits dest: sort_items_Inr)

lemma create_single_map_symbology:
  assumes ok: "create_single_map h aprx a = (p, Inr (m, lyr))"
  shows "\<exists>l sy1 ramp rest.
           load_layer h (a_layer_path a) = Inr l \<and>
           update_renderer h (a_renderer a) (symbology l) = Inr sy1 \<and>
           color_ramps h (a_color_map a) = ramp # rest \<and>
           apply_renderer h a (with_ramp sy1 ramp) = Inr (symbology (layer_objs p ! lyr))"
proof -
  obtain p0 loc sy where
    prep: "prepare_map h aprx a = (p0, Inr loc)" and
    ar: "apply_renderer h a (l_sym loc) = Inr sy" and
    p: "p = set_layer p0 (l_layer loc) (\<lambda>l. l\<lparr>symbology := sy\<rparr>)" and
    lyr: "lyr = l_layer loc"
    using create_single_map_Inr [OF ok] by auto
  from prepare_map_Inr [OF prep] obtain l sy1 ramp rest where
    l: "load_layer h (a_layer_path a) = Inr l" and
    u: "update_renderer h (a_renderer a) (symbology l) = Inr sy1" and
    c: "color_ramps h (a_color_map a) = ramp # rest" and
    p0: "p0 = prepared_project h aprx a l" and
    loc: "loc = \<lparr>l_m = length (maps aprx),
           l_layer = length (layer_objs aprx) + length (default_layers h),
           l_sym = with_ramp sy1 ramp\<rparr>"
    by blast
  have "symbology (layer_objs p ! lyr) = sy"
    by (simp add: p lyr loc p0 set_layer_def prepared_project_length)
  with ar l u c show ?thesis by (auto simp: loc)
qed

lemma list_all2_setD:
  "list_all2 P xs ys \<Longrightarrow> y \<in> set ys \<Longrightarrow> \<exists>x \<in> set xs. P x y"
  by (induction rule: list_all2_induct) auto

lemma create_single_map_unique:
  assumes ok: "create_single_map h aprx a = (p, Inr (m, lyr))"
      and uv: "a_renderer a = ''UniqueValueRenderer''"
      and l: "load_layer h (a_layer_path a) = Inr l"
      and u: "update_renderer h (a_renderer a) (symbology l) = Inr sy1"
      and c: "color_ramps h (a_color_map a) = ramp # rest"
  shows "\<exists>g gs its.
           regroup h [a_variable_name a] ((renderer sy1)\<lparr>colorRamp := Some ramp\<rparr>) = g # gs \<and>
           sort_items (items g) = Inr (sort_key key_of (items g)) \<and>
           relabel h (a_label_map a) (sort_key key_of (items g)) = Inr its \<and>
           groups (renderer (symbology (layer_objs p ! lyr))) = g\<lparr>items := its\<rparr> # gs"
proof -
  from create_single_map_symbology [OF ok] l u c
  have "apply_renderer h a (with_ramp sy1 ramp) = Inr (symbology (layer_objs p ! lyr))"
    by auto
  from apply_renderer_unique [OF this uv] show ?thesis
    by (auto simp: with_ramp_def)
qed

lemma first_value_cong: "item_values g = item_values g' \<Longrightarrow> first_value g = first_value g'"
  by (simp add: first_value_def)

lemma item_keys_cong:
  "map item_values gs = map item_values gs' \<Longrightarrow> item_keys gs = item_keys gs'"
proof (induction gs arbitrary: gs')
  case Nil
  then show ?case by simp
next
  case (Cons g gs)
  then obtain g' gs'' where gs': "gs' = g' # gs''" by (cases gs') auto
  with Cons.prems have "item_values g = item_values g'" "map item_values gs = map item_values gs''"
    by simp_all
  with Cons.IH [of gs''] first_value_cong [of g g'] show ?case
    by (simp add: gs' split: sum.splits)
qed

lemma item_keys_sorted:
  assumes "sort_items gs = Inr ys"
  shows "\<exists>ks. item_keys ys = Inr ks \<and> sorted ks"
proof -
  have "sorted (map key_of (sort_key key_of gs))" by (rule sorted_sort_key)
  with sort_items_keys [OF assms] sort_items_Inr [OF assms] show ?thesis by simp
qed

section \<open>Auxiliary facts about \<open>create_standard_layout\<close>\<close>

lemma strip_borders_Inr:
  "strip_borders els = Inr els' \<Longrightarrow>
   list_all2 (\<lambda>e e'. if cim_type e = ''CIMMapFrame''
                      then \<exists>gf. graphicFrame e = Some gf \<and>
                                e' = e\<lparr>graphicFrame := Some (gf\<lparr>borderSymbol := None\<rparr>)\<rparr>
                      else e' = e) els els'"
proof (induction els arbitrary: els')
  case Nil
  then show ?case by simp
next
  case (Cons elm elms)
  show ?case
  proof (cases "cim_type elm = ''CIMMapFrame''")
    case True
    with Cons.prems obtain gf rest where
      "graphicFrame elm = Some gf" "strip_borders elms = Inr rest"
      "els' = elm\<lparr>graphicFrame := Some (gf\<lparr>borderSymbol := None\<rparr>)\<rparr> # rest"
      by (auto split: option.splits sum.splits)
    with Cons.IH [of rest] True show ?thesis by simp
  next
    case False
    with Cons.prems obtain rest where "strip_borders elms = Inr rest" "els' = elm # rest"
      by (auto split: sum.splits)
    with Cons.IH [of rest] False show ?thesis by simp
  qed
qed

lemma strip_borders_no_border:
  "strip_borders els = Inr els' \<Longrightarrow> e \<in> set els' \<Longrightarrow> cim_type e = ''CIMMapFrame'' \<Longrightarrow>
   \<exists>gf. graphicFrame e = Some gf \<and> borderSymbol gf = None"
proof (induction els arbitrary: els')
  case Nil
  then show ?case by simp
next
  case (Cons elm elms)
  then show ?case
    by (auto split: if_splits option.splits sum.splits)
qed

lemma hide_names_map:
  "hide_names its = map (\<lambda>i. i\<lparr>showLayerName := False, showHeading := False\<rparr>) its"
  by (induction its) auto

lemma create_standard_layout_Inr:
  assumes "create_standard_layout h a = Inr lyt"
  shows "\<exists>els els' s1 s2 s3 s4.
     frame_definition h (mapframe_extent_of a) (la_map_obj a) = Inr els \<and>
     strip_borders els = Inr els' \<and>
     first_style h ''TEXT'' ''Title (Serif)'' = Inr s1 \<and>
     first_style h ''LEGEND'' ''Legend 1'' = Inr s2 \<and>
     first_style h ''SCALE_BAR'' ''Scale Line 1 Metric'' = Inr s3 \<and>
     first_style h ''NORTH_ARROW'' ''ArcGIS North 1'' = Inr s4 \<and>
     lyt = \<lparr>lyt_name = la_layout_name a, page_width = 8.27, page_height = 5.83,
            page_units = ''INCH'', lyt_cim = els',
            lyt_mapframe = Some \<lparr>mf_rect = mapframe_extent_of a, mf_map = la_map_obj a,
              camera_extent = Some (layer_extent h (la_map_obj a) (la_layer a))\<rparr>,
            lyt_texts = [\<lparr>txt_position = title_position_of a, txt_geometry = ''POINT'',
              txt_text = la_title_text a, txt_size = 20, style_item = s1,
              txt_anchor = ''Center_Point'', fontFamilyName = ''Garamond''\<rparr>],
            lyt_surrounds =
              [\<lparr>ms_position = legend_position_of a, ms_type = ''LEGEND'', ms_style = s2,
                elementWidth = Some (fst (legend_size_of a)),
                elementHeight = Some (snd (legend_size_of a)),
                ms_items = hide_names (new_legend_items h (la_map_obj a))\<rparr>,
               \<lparr>ms_position = scalebar_position_of a, ms_type = ''SCALE_BAR'', ms_style = s3,
                elementWidth = None, elementHeight = None, ms_items = []\<rparr>,
               \<lparr>ms_position = north_arrow_position_of a, ms_type = ''NORTH_ARROW'',
                ms_style = s4, elementWidth = None, elementHeight = None, ms_items = []\<rparr>]\<rparr>"
  using assms
  by (auto simp: create_standard_layout_def Let_def createMapSurroundElement_def
      split: sum.splits)

section \<open>The claims\<close>

text \<open>
  Claim C1, as stated: every renderer string other than the two supported ones makes
  \<open>create_single_map\<close> fail with the \<open>ValueError\<close> that names it. The check is the
  last branch of line 65 to 83, after the colour ramp was looked up in line 61: with a
  colour ramp name the host does not know, the subscript \<open>[0]\<close> raises
  \<open>IndexError\<close> first.
\<close>

theorem unsupported_renderer_counterexample:
  "a_renderer foo_no_ramp_args = ''Foo'' \<and>
   color_ramps example_host (a_color_map foo_no_ramp_args) = [] \<and>
   snd (create_single_map example_host empty_project foo_no_ramp_args) = Inl IndexError \<and>
   snd (create_single_map example_host empty_project foo_no_ramp_args) \<noteq>
     Inl (ValueError ''Unsupported renderer: Foo'')"
proof -
  have "snd (create_single_map example_host empty_project foo_no_ramp_args) = Inl IndexError"
    by code_simp
  then show ?thesis
    by (simp add: foo_no_ramp_args_def uv_args_def example_host_def)
qed

text \<open>
  Claim C1, amended. For a renderer string other than the two supported ones the call
  never returns a result; and whenever the steps before the check go through (the
  dataset loads, \<open>updateRenderer\<close> accepts the string, the colour ramp lookup is not
  empty) the exception is the \<open>ValueError\<close> whose message is
  \<open>Unsupported renderer: \<close> followed by the renderer string.
\<close>

theorem unsupported_renderer_fails:
  assumes "a_renderer a \<noteq> ''UniqueValueRenderer''"
      and "a_renderer a \<noteq> ''GraduatedColorsRenderer''"
  shows "(\<exists>e. snd (create_single_map h aprx a) = Inl e) \<and>
         (\<forall>l sy1. load_layer h (a_layer_path a) = Inr l \<longrightarrow>
                  update_renderer h (a_renderer a) (symbology l) = Inr sy1 \<longrightarrow>
                  color_ramps h (a_color_map a) \<noteq> [] \<longrightarrow>
            snd (create_single_map h aprx a) =
              Inl (ValueError (''Unsupported renderer: '' @ a_renderer a)))"
proof
  show "\<exists>e. snd (create_single_map h aprx a) = Inl e"
    using prepare_map_fails_or [of h aprx a] apply_renderer_unsupported [OF assms, of h]
    by (auto simp: create_single_map_def)
next
  show "\<forall>l sy1. load_layer h (a_layer_path a) = Inr l \<longrightarrow>
                  update_renderer h (a_renderer a) (symbology l) = Inr sy1 \<longrightarrow>
                  color_ramps h (a_color_map a) \<noteq> [] \<longrightarrow>
            snd (create_single_map h aprx a) =
              Inl (ValueError (''Unsupported renderer: '' @ a_renderer a))"
  proof (intro allI impI)
    fix l sy1
    assume l: "load_layer h (a_layer_path a) = Inr l"
      and u: "update_renderer h (a_renderer a) (symbology l) = Inr sy1"
      and c: "color_ramps h (a_color_map a) \<noteq> []"
    from c obtain ramp rest where r: "color_ramps h (a_color_map a) = ramp # rest"
      by (cases "color_ramps h (a_color_map a)") auto
    show "snd (create_single_map h aprx a) =
            Inl (ValueError (''Unsupported renderer: '' @ a_renderer a))"
      by (simp add: create_single_map_eq [OF l u r] apply_renderer_unsupported [OF assms])
  qed
qed

theorem unsupported_renderer_fails_witness:
  "a_renderer foo_args = ''Foo'' \<and>
   load_layer example_host (a_layer_path foo_args) =
     Inr \<lparr>name = ''d.shp'', isBasemapLayer = False, symbology = blank_symbology\<rparr> \<and>
   color_ramps example_host (a_color_map foo_args) = [''Viridis''] \<and>
   snd (create_single_map example_host empty_project foo_args) =
     Inl (ValueError ''Unsupported renderer: Foo'')"
proof -
  have r: "a_renderer foo_args = ''Foo''"
    by (simp add: foo_args_def uv_args_def)
  have l: "load_layer example_host (a_layer_path foo_args) =
     Inr \<lparr>name = ''d.shp'', isBasemapLayer = False, symbology = blank_symbology\<rparr>"
    by (simp add: foo_args_def uv_args_def example_host_def)
  have u: "update_renderer example_host (a_renderer foo_args)
             (symbology \<lparr>name = ''d.shp'', isBasemapLayer = False, symbology = blank_symbology\<rparr>) =
           Inr (blank_symbology\<lparr>renderer := (renderer blank_symbology)\<lparr>rtype := ''Foo''\<rparr>\<rparr>)"
    by (simp add: foo_args_def uv_args_def example_host_def)
  have c: "color_ramps example_host (a_color_map foo_args) = [''Viridis'']"
    by (simp add: foo_args_def uv_args_def example_host_def)
  have "snd (create_single_map example_host empty_project foo_args) =
          Inl (ValueError (''Unsupported renderer: '' @ a_renderer foo_args))"
    using unsupported_renderer_fails [of foo_args example_host empty_project] l u c
    by (simp add: r)
  with r l c show ?thesis by simp
qed

text \<open>
  Claim C2. After a unique-value call that returned, the layer's renderer has a first
  group, and every item of it carries the label the mapping gives for the integer value
  of the item's first value, or the decimal string of that integer where the mapping has
  no entry for it.
\<close>

theorem unique_value_labels:
  assumes ok: "create_single_map h aprx a = (p, Inr (m, lyr))"
      and uv: "a_renderer a = ''UniqueValueRenderer''"
  shows "\<exists>g gs. groups (renderer (symbology (layer_objs p ! lyr))) = g # gs \<and>
           (\<forall>it \<in> set (items g). \<exists>x val d.
              a_label_map a = Some d \<and> first_value it = Inr x \<and> to_int h x = Some val \<and>
              label it = (case d val of Some s \<Rightarrow> s | None \<Rightarrow> str_int val))"
proof -
  from create_single_map_symbology [OF ok] obtain sy0 where
    ar: "apply_renderer h a sy0 = Inr (symbology (layer_objs p ! lyr))"
    by blast
  from apply_renderer_unique [OF ar uv] obtain g gs its where
    rl: "relabel h (a_label_map a) (sort_key key_of (items g)) = Inr its" and
    sy: "symbology (layer_objs p ! lyr) =
           sy0\<lparr>renderer := (renderer sy0)\<lparr>rfields := [a_variable_name a],
                                             groups := g\<lparr>items := its\<rparr> # gs\<rparr>\<rparr>"
    by blast
  have "\<exists>x val d. a_label_map a = Some d \<and> first_value it = Inr x \<and> to_int h x = Some val \<and>
          label it = (case d val of Some s \<Rightarrow> s | None \<Rightarrow> str_int val)"
    if "it \<in> set its" for it
  proof -
    from list_all2_setD [OF relabel_Inr [OF rl] that]
    obtain it0 where "relabelled h (a_label_map a) it0 it" by blast
    then show ?thesis
      by (auto simp: relabelled_def dict_get_def first_value_def)
  qed
  then show ?thesis
    by (simp add: sy)
qed

theorem unique_value_labels_witness:
  "snd (create_single_map example_host empty_project uv_args) = Inr (0, 1) \<and>
   a_label_map uv_args = Some [1 \<mapsto> ''Forest''] \<and>
   map items (groups (renderer (symbology
       (layer_objs (fst (create_single_map example_host empty_project uv_args)) ! 1)))) =
     [[\<lparr>item_values = [[1]], label = ''Forest''\<rparr>,
       \<lparr>item_values = [[2]], label = ''2''\<rparr>,
       \<lparr>item_values = [[3]], label = ''3''\<rparr>],
      [\<lparr>item_values = [[9]], label = ''?''\<rparr>, \<lparr>item_values = [[7]], label = ''?''\<rparr>]] \<and>
   groups (renderer (symbology
       (layer_objs (fst (create_single_map example_host empty_project uv_args)) ! 1))) \<noteq> []"
proof -
  have s: "snd (create_single_map example_host empty_project uv_args) = Inr (0, 1)"
    by code_simp
  have lm: "a_label_map uv_args = Some [1 \<mapsto> ''Forest'']"
    by (simp add: uv_args_def)
  have uv: "a_renderer uv_args = ''UniqueValueRenderer''"
    by (simp add: uv_args_def)
  have g: "map items (groups (renderer (symbology
       (layer_objs (fst (create_single_map example_host empty_project uv_args)) ! 1)))) =
     [[\<lparr>item_values = [[1]], label = ''Forest''\<rparr>,
       \<lparr>item_values = [[2]], label = ''2''\<rparr>,
       \<lparr>item_values = [[3]], label = ''3''\<rparr>],
      [\<lparr>item_values = [[9]], label = ''?''\<rparr>, \<lparr>item_values = [[7]], label = ''?''\<rparr>]]"
    by code_simp
  have "create_single_map example_host empty_project uv_args =
          (fst (create_single_map example_host empty_project uv_args), Inr (0, 1))"
    using s by (simp add: prod_eq_iff)
  from unique_value_labels [OF this uv]
  have "groups (renderer (symbology
       (layer_objs (fst (create_single_map example_host empty_project uv_args)) ! 1))) \<noteq> []"
    by auto
  with s lm g show ?thesis by simp
qed

text \<open>
  Claim C3, as stated, has the sorting and the relabelling apply to the renderer's
  categorical groups. Lines 68 to 73 work on \<open>groups[0]\<close> alone: with a renderer of
  two groups the second one comes back as it was, its items in the order 9, 7 and under
  the labels they had, although the call returned.
\<close>

theorem all_groups_sorted_counterexample:
  "a_renderer uv_args = ''UniqueValueRenderer'' \<and>
   snd (create_single_map example_host empty_project uv_args) = Inr (0, 1) \<and>
   groups (renderer (symbology
       (layer_objs (fst (create_single_map example_host empty_project uv_args)) ! 1))) ! 1 =
     \<lparr>heading = ''g1'',
      items = [\<lparr>item_values = [[9]], label = ''?''\<rparr>, \<lparr>item_values = [[7]], label = ''?''\<rparr>]\<rparr> \<and>
   \<not> sorted [9, 7 :: int] \<and>
   str_int 9 = ''9'' \<and> str_int 7 = ''7'' \<and>
   a_label_map uv_args = Some [1 \<mapsto> ''Forest'']"
proof -
  have s: "snd (create_single_map example_host empty_project uv_args) = Inr (0, 1)"
    by code_simp
  have g: "groups (renderer (symbology
       (layer_objs (fst (create_single_map example_host empty_project uv_args)) ! 1))) ! 1 =
     \<lparr>heading = ''g1'',
      items = [\<lparr>item_values = [[9]], label = ''?''\<rparr>, \<lparr>item_values = [[7]], label = ''?''\<rparr>]\<rparr>"
    by code_simp
  have d: "str_int 9 = ''9''" "str_int 7 = ''7''"
    by code_simp+
  from s g d show ?thesis
    by (simp add: uv_args_def)
qed

text \<open>
  Claim C3, amended. After a unique-value call that returned, the first group of the
  layer's renderer holds the items it held when the fields were assigned, in ascending
  order of their first values and each under the label of claim C2; the other groups are
  the ones the renderer had (claim C10 says so on its own).
\<close>

theorem first_group_sorted_and_relabelled:
  assumes ok: "create_single_map h aprx a = (p, Inr (m, lyr))"
      and uv: "a_renderer a = ''UniqueValueRenderer''"
      and l: "load_layer h (a_layer_path a) = Inr l"
      and u: "update_renderer h (a_renderer a) (symbology l) = Inr sy1"
      and c: "color_ramps h (a_color_map a) = ramp # rest"
      and g: "regroup h [a_variable_name a] ((renderer sy1)\<lparr>colorRamp := Some ramp\<rparr>) = g # gs"
  shows "\<exists>its ks.
           groups (renderer (symbology (layer_objs p ! lyr))) = g\<lparr>items := its\<rparr> # gs \<and>
           item_keys its = Inr ks \<and> sorted ks \<and>
           mset (map item_values its) = mset (map item_values (items g)) \<and>
           (\<forall>it \<in> set its. \<exists>x val d.
              a_label_map a = Some d \<and> first_value it = Inr x \<and> to_int h x = Some val \<and>
              label it = (case d val of Some s \<Rightarrow> s | None \<Rightarrow> str_int val))"
proof -
  from create_single_map_unique [OF ok uv l u c] g obtain its where
    so: "sort_items (items g) = Inr (sort_key key_of (items g))" and
    rl: "relabel h (a_label_map a) (sort_key key_of (items g)) = Inr its" and
    gr: "groups (renderer (symbology (layer_objs p ! lyr))) = g\<lparr>items := its\<rparr> # gs"
    by auto
  have vals: "map item_values its = map item_values (sort_key key_of (items g))"
    by (rule relabel_values [OF rl])
  from item_keys_sorted [OF so] obtain ks where
    "item_keys (sort_key key_of (items g)) = Inr ks" and sorted: "sorted ks"
    by blast
  with item_keys_cong [OF vals] have keys: "item_keys its = Inr ks" by simp
  have "mset (map item_values its) = image_mset item_values (mset (sort_key key_of (items g)))"
    by (simp add: vals)
  then have perm: "mset (map item_values its) = mset (map item_values (items g))"
    by simp
  have lab: "\<exists>x val d. a_label_map a = Some d \<and> first_value it = Inr x \<and> to_int h x = Some val \<and>
          label it = (case d val of Some s \<Rightarrow> s | None \<Rightarrow> str_int val)"
    if "it \<in> set its" for it
  proof -
    from list_all2_setD [OF relabel_Inr [OF rl] that]
    obtain it0 where "relabelled h (a_label_map a) it0 it" by blast
    then show ?thesis
      by (auto simp: relabelled_def dict_get_def first_value_def)
  qed
  from gr keys sorted perm lab show ?thesis by blast
qed

theorem first_group_sorted_and_relabelled_witness:
  "snd (create_single_map example_host empty_project uv_args) = Inr (0, 1) \<and>
   hd (regroup example_host [''cls''] (renderer blank_symbology)) =
     \<lparr>heading = ''g0'', items = [class_item 3, class_item 1, class_item 2]\<rparr> \<and>
   hd (groups (renderer (symbology
       (layer_objs (fst (create_single_map example_host empty_project uv_args)) ! 1)))) =
     \<lparr>heading = ''g0'',
      items = [\<lparr>item_values = [[1]], label = ''Forest''\<rparr>,
               \<lparr>item_values = [[2]], label = ''2''\<rparr>,
               \<lparr>item_values = [[3]], label = ''3''\<rparr>]\<rparr> \<and>
   heading (hd (groups (renderer (symbology
       (layer_objs (fst (create_single_map example_host empty_project uv_args)) ! 1))))) = ''g0''"
proof -
  have s: "snd (create_single_map example_host empty_project uv_args) = Inr (0, 1)"
    by code_simp
  have uv: "a_renderer uv_args = ''UniqueValueRenderer''"
    by (simp add: uv_args_def)
  have l: "load_layer example_host (a_layer_path uv_args) =
     Inr \<lparr>name = ''d.shp'', isBasemapLayer = False, symbology = blank_symbology\<rparr>"
    by (simp add: uv_args_def example_host_def)
  have u: "update_renderer example_host (a_renderer uv_args)
             (symbology \<lparr>name = ''d.shp'', isBasemapLayer = False, symbology = blank_symbology\<rparr>) =
           Inr (blank_symbology\<lparr>renderer := (renderer blank_symbology)
                  \<lparr>rtype := ''UniqueValueRenderer''\<rparr>\<rparr>)"
    by (simp add: uv_args_def example_host_def)
  have c: "color_ramps example_host (a_color_map uv_args) = [''Viridis'']"
    by (simp add: uv_args_def example_host_def)
  have r: "regroup example_host fs x =
     [\<lparr>heading = ''g0'', items = [class_item 3, class_item 1, class_item 2]\<rparr>,
      \<lparr>heading = ''g1'', items = [class_item 9, class_item 7]\<rparr>]" for fs x
    by (simp add: example_host_def)
  have h: "hd (groups (renderer (symbology
       (layer_objs (fst (create_single_map example_host empty_project uv_args)) ! 1)))) =
     \<lparr>heading = ''g0'',
      items = [\<lparr>item_values = [[1]], label = ''Forest''\<rparr>,
               \<lparr>item_values = [[2]], label = ''2''\<rparr>,
               \<lparr>item_values = [[3]], label = ''3''\<rparr>]\<rparr>"
    by code_simp
  have "create_single_map example_host empty_project uv_args =
          (fst (create_single_map example_host empty_project uv_args), Inr (0, 1))"
    using s by (simp add: prod_eq_iff)
  from first_group_sorted_and_relabelled [OF this uv l u c r]
  have "heading (hd (groups (renderer (symbology
       (layer_objs (fst (create_single_map example_host empty_project uv_args)) ! 1))))) = ''g0''"
    by auto
  with s h show ?thesis by (simp add: r)
qed

text \<open>
  Claim C4. A parameter left out takes the literal default of the signature: a
  graduated-colours call without classification method and break count hands
  \<open>reclassify\<close> a renderer with the method \<open>NaturalBreaks\<close> and 5 breaks; the layout
  that \<open>create_standard_layout\<close> returns has its title at (4.1215, 5.539), its legend
  at (0.1464, 2.2927) with width 1.2357 and height 1.7131, its scale bar at
  (2.7713, 0.2371) and its north arrow at (7.2704, 4.8844), each where the parameter
  was left out.
\<close>

theorem omitted_parameters_take_defaults:
  "(a_renderer a = ''GraduatedColorsRenderer'' \<longrightarrow>
    a_classification_method a = None \<longrightarrow> a_break_count a = None \<longrightarrow>
      apply_renderer h a sy =
        (case reclassify h ((renderer sy)\<lparr>classificationField := a_variable_name a,
                                          classificationMethod := ''NaturalBreaks'',
                                          breakCount := 5\<rparr>) of
           Inl e \<Rightarrow> Inl (HostError e)
         | Inr r \<Rightarrow> Inr (sy\<lparr>renderer := r\<rparr>))) \<and>
   (create_standard_layout lh la = Inr lyt \<longrightarrow>
      map ms_type (lyt_surrounds lyt) = [''LEGEND'', ''SCALE_BAR'', ''NORTH_ARROW''] \<and>
      (la_title_position la = None \<longrightarrow> map txt_position (lyt_texts lyt) = [(4.1215, 5.539)]) \<and>
      (la_legend_position la = None \<longrightarrow>
         ms_position (lyt_surrounds lyt ! 0) = (0.1464, 2.2927)) \<and>
      (la_legend_size la = None \<longrightarrow>
         elementWidth (lyt_surrounds lyt ! 0) = Some 1.2357 \<and>
         elementHeight (lyt_surrounds lyt ! 0) = Some 1.7131) \<and>
      (la_scalebar_position la = None \<longrightarrow>
         ms_position (lyt_surrounds lyt ! 1) = (2.7713, 0.2371)) \<and>
      (la_north_arrow_position la = None \<longrightarrow>
         ms_position (lyt_surrounds lyt ! 2) = (7.2704, 4.8844)))"
proof (intro conjI impI)
  assume "a_renderer a = ''GraduatedColorsRenderer''"
    "a_classification_method a = None" "a_break_count a = None"
  then show "apply_renderer h a sy =
        (case reclassify h ((renderer sy)\<lparr>classificationField := a_variable_name a,
                                          classificationMethod := ''NaturalBreaks'',
                                          breakCount := 5\<rparr>) of
           Inl e \<Rightarrow> Inl (HostError e)
         | Inr r \<Rightarrow> Inr (sy\<lparr>renderer := r\<rparr>))"
    by (simp add: apply_renderer_def classification_method_of_def break_count_of_def)
next
  assume ok: "create_standard_layout lh la = Inr lyt"
  from create_standard_layout_Inr [OF ok]
  show "map ms_type (lyt_surrounds lyt) = [''LEGEND'', ''SCALE_BAR'', ''NORTH_ARROW'']"
    by auto
  {
    assume "la_title_position la = None"
    with create_standard_layout_Inr [OF ok]
    show "map txt_position (lyt_texts lyt) = [(4.1215, 5.539)]"
      by (auto simp: title_position_of_def)
  }
  {
    assume "la_legend_position la = None"
    with create_standard_layout_Inr [OF ok]
    show "ms_position (lyt_surrounds lyt ! 0) = (0.1464, 2.2927)"
      by (auto simp: legend_position_of_def)
  }
  {
    assume s: "la_legend_size la = None"
    with create_standard_layout_Inr [OF ok]
    show "elementWidth (lyt_surrounds lyt ! 0) = Some 1.2357"
      by (auto simp: legend_size_of_def)
    from s create_standard_layout_Inr [OF ok]
    show "elementHeight (lyt_surrounds lyt ! 0) = Some 1.7131"
      by (auto simp: legend_size_of_def)
  }
  {
    assume "la_scalebar_position la = None"
    with create_standard_layout_Inr [OF ok]
    show "ms_position (lyt_surrounds lyt ! 1) = (2.7713, 0.2371)"
      by (auto simp: scalebar_position_of_def)
  }
  {
    assume "la_north_arrow_position la = None"
    with create_standard_layout_Inr [OF ok]
    show "ms_position (lyt_surrounds lyt ! 2) = (7.2704, 4.8844)"
      by (auto simp: north_arrow_position_of_def)
  }
qed

theorem omitted_parameters_take_defaults_witness:
  "a_classification_method graduated_args = None \<and> a_break_count graduated_args = None \<and>
   apply_renderer example_host graduated_args blank_symbology =
     Inr (blank_symbology\<lparr>renderer := (renderer blank_symbology)
            \<lparr>classificationField := ''cls'', classificationMethod := ''NaturalBreaks'',
             breakCount := 5\<rparr>\<rparr>) \<and>
   map_sum id (\<lambda>lyt. map txt_position (lyt_texts lyt))
       (create_standard_layout example_layout_host example_layout_args) =
     Inr [(4.1215, 5.539)] \<and>
   map_sum id (\<lambda>lyt. map ms_position (lyt_surrounds lyt))
       (create_standard_layout example_layout_host example_layout_args) =
     Inr [(0.1464, 2.2927), (2.7713, 0.2371), (7.2704, 4.8844)] \<and>
   map_sum id (\<lambda>lyt. (elementWidth (hd (lyt_surrounds lyt)), elementHeight (hd (lyt_surrounds lyt))))
       (create_standard_layout example_layout_host example_layout_args) =
     Inr (Some 1.2357, Some 1.7131)"
proof -
  have g: "a_renderer graduated_args = ''GraduatedColorsRenderer''"
    and cm: "a_classification_method graduated_args = None"
    and bc: "a_break_count graduated_args = None"
    and vn: "a_variable_name graduated_args = ''cls''"
    by (simp_all add: graduated_args_def uv_args_def)
  have rc: "reclassify example_host r = Inr r" for r
    by (simp add: example_host_def)
  have om: "la_title_position example_layout_args = None"
    "la_legend_position example_layout_args = None"
    "la_legend_size example_layout_args = None"
    "la_scalebar_position example_layout_args = None"
    "la_north_arrow_position example_layout_args = None"
    by (simp_all add: example_layout_args_def)
  obtain lyt where ok: "create_standard_layout example_layout_host example_layout_args = Inr lyt"
    by (simp add: create_standard_layout_def example_layout_host_def first_style_def Let_def)
  note d = omitted_parameters_take_defaults
    [of graduated_args example_host blank_symbology example_layout_host example_layout_args lyt]
  from d g cm bc have ar: "apply_renderer example_host graduated_args blank_symbology =
     Inr (blank_symbology\<lparr>renderer := (renderer blank_symbology)
            \<lparr>classificationField := ''cls'', classificationMethod := ''NaturalBreaks'',
             breakCount := 5\<rparr>\<rparr>)"
    by (simp add: rc vn)
  from d ok om have ty: "map ms_type (lyt_surrounds lyt) = [''LEGEND'', ''SCALE_BAR'', ''NORTH_ARROW'']"
    and tp: "map txt_position (lyt_texts lyt) = [(4.1215, 5.539)]"
    and p0: "ms_position (lyt_surrounds lyt ! 0) = (0.1464, 2.2927)"
    and w: "elementWidth (lyt_surrounds lyt ! 0) = Some 1.2357"
    and ht: "elementHeight (lyt_surrounds lyt ! 0) = Some 1.7131"
    and p1: "ms_position (lyt_surrounds lyt ! 1) = (2.7713, 0.2371)"
    and p2: "ms_position (lyt_surrounds lyt ! 2) = (7.2704, 4.8844)"
    by simp_all
  from ty obtain s0 s1 s2 where ss: "lyt_surrounds lyt = [s0, s1, s2]"
    by (auto simp: map_eq_Cons_conv)
  from p0 p1 p2 w ht have "map ms_position (lyt_surrounds lyt) =
      [(0.1464, 2.2927), (2.7713, 0.2371), (7.2704, 4.8844)]"
    "elementWidth (hd (lyt_surrounds lyt)) = Some 1.2357"
    "elementHeight (hd (lyt_surrounds lyt)) = Some 1.7131"
    by (simp_all add: ss)
  with cm bc ar tp ok show ?thesis by simp
qed

text \<open>
  Claim C5. When \<open>create_single_map\<close> returns, the map it returns is a map of the
  project and none of its layers is a basemap layer.
\<close>

theorem create_single_map_strips_basemaps:
  assumes "create_single_map h aprx a = (p, Inr (m, lyr))"
  shows "m < length (maps p) \<and>
         (\<forall>r \<in> set (map_layers (maps p ! m)).
            r < length (layer_objs p) \<and> \<not> isBasemapLayer (layer_objs p ! r))"
proof -
  obtain p0 loc sy where
    prep: "prepare_map h aprx a = (p0, Inr loc)" and
    p: "p = set_layer p0 (l_layer loc) (\<lambda>l. l\<lparr>symbology := sy\<rparr>)" and
    m: "m = l_m loc"
    using create_single_map_Inr [OF assms] by auto
  obtain l where
    lm: "l_m loc = length (maps aprx)" and p0: "p0 = prepared_project h aprx a l"
    using prepare_map_Inr [OF prep] by auto
  have maps_p: "maps p = maps p0" and len: "length (layer_objs p) = length (layer_objs p0)"
    by (simp_all add: p set_layer_def)
  have base: "isBasemapLayer (layer_objs p ! r) = isBasemapLayer (layer_objs p0 ! r)"
    if "r < length (layer_objs p0)" for r
    using that by (cases "r = l_layer loc") (simp_all add: p set_layer_def)
  have bound: "r < length (layer_objs p0)" if "r \<in> set (new_layers h aprx)" for r
    using new_layers_bound [OF that] by (simp add: p0 prepared_project_length)
  show ?thesis
    using bound base by (auto simp: maps_p m lm len p0 prepared_project_maps)
qed

theorem create_single_map_strips_basemaps_witness:
  "snd (create_single_map example_host empty_project uv_args) = Inr (0, 1) \<and>
   map isBasemapLayer (default_layers example_host) = [True] \<and>
   map_layers (maps (fst (create_single_map example_host empty_project uv_args)) ! 0) = [1] \<and>
   \<not> isBasemapLayer (layer_objs (fst (create_single_map example_host empty_project uv_args)) ! 1)"
proof -
  have s: "snd (create_single_map example_host empty_project uv_args) = Inr (0, 1)"
    by code_simp
  have d: "map isBasemapLayer (default_layers example_host) = [True]"
    by (simp add: example_host_def)
  have ml: "map_layers (maps (fst (create_single_map example_host empty_project uv_args)) ! 0) = [1]"
    by code_simp
  have "create_single_map example_host empty_project uv_args =
          (fst (create_single_map example_host empty_project uv_args), Inr (0, 1))"
    using s by (simp add: prod_eq_iff)
  from create_single_map_strips_basemaps [OF this] ml
  have "\<not> isBasemapLayer (layer_objs (fst (create_single_map example_host empty_project uv_args)) ! 1)"
    by simp
  with s d ml show ?thesis by simp
qed

text \<open>
  Claim C6. The definition of the layout that \<open>create_standard_layout\<close> returns is the
  definition the layout had when the map frame was placed, element for element, with the
  border symbol of the graphic frame set to \<open>None\<close> in every element of class
  \<open>CIMMapFrame\<close> and every other element as it was; no \<open>CIMMapFrame\<close> element of
  it has a border symbol.
\<close>

theorem map_frame_border_removed:
  assumes "create_standard_layout h a = Inr lyt"
  shows "\<exists>els.
           frame_definition h (mapframe_extent_of a) (la_map_obj a) = Inr els \<and>
           list_all2 (\<lambda>e e'. if cim_type e = ''CIMMapFrame''
                              then \<exists>gf. graphicFrame e = Some gf \<and>
                                        e' = e\<lparr>graphicFrame := Some (gf\<lparr>borderSymbol := None\<rparr>)\<rparr>
                              else e' = e) els (lyt_cim lyt) \<and>
           (\<forall>e \<in> set (lyt_cim lyt). cim_type e = ''CIMMapFrame'' \<longrightarrow>
              (\<exists>gf. graphicFrame e = Some gf \<and> borderSymbol gf = None))"
proof -
  from create_standard_layout_Inr [OF assms] obtain els els' where
    fd: "frame_definition h (mapframe_extent_of a) (la_map_obj a) = Inr els" and
    sb: "strip_borders els = Inr els'" and
    cim: "lyt_cim lyt = els'"
    by auto
  from strip_borders_Inr [OF sb] strip_borders_no_border [OF sb] fd show ?thesis
    by (auto simp: cim)
qed

theorem map_frame_border_removed_witness:
  "frame_definition example_layout_host (mapframe_extent_of example_layout_args)
      (la_map_obj example_layout_args) =
     Inr [\<lparr>cim_type = ''CIMGraphicElement'', graphicFrame = None\<rparr>,
          \<lparr>cim_type = ''CIMMapFrame'',
           graphicFrame = Some \<lparr>borderSymbol = Some ''Black Outline (1pt)''\<rparr>\<rparr>] \<and>
   map_sum id lyt_cim (create_standard_layout example_layout_host example_layout_args) =
     Inr [\<lparr>cim_type = ''CIMGraphicElement'', graphicFrame = None\<rparr>,
          \<lparr>cim_type = ''CIMMapFrame'', graphicFrame = Some \<lparr>borderSymbol = None\<rparr>\<rparr>]"
proof -
  have fd: "frame_definition example_layout_host (mapframe_extent_of example_layout_args)
      (la_map_obj example_layout_args) =
     Inr [\<lparr>cim_type = ''CIMGraphicElement'', graphicFrame = None\<rparr>,
          \<lparr>cim_type = ''CIMMapFrame'',
           graphicFrame = Some \<lparr>borderSymbol = Some ''Black Outline (1pt)''\<rparr>\<rparr>]"
    by (simp add: example_layout_host_def)
  obtain lyt where ok: "create_standard_layout example_layout_host example_layout_args = Inr lyt"
    by (simp add: create_standard_layout_def example_layout_host_def first_style_def Let_def)
  from map_frame_border_removed [OF ok] fd
  have "lyt_cim lyt =
     [\<lparr>cim_type = ''CIMGraphicElement'', graphicFrame = None\<rparr>,
      \<lparr>cim_type = ''CIMMapFrame'', graphicFrame = Some \<lparr>borderSymbol = None\<rparr>\<rparr>]"
    by (auto simp: list_all2_Cons1)
  with fd ok show ?thesis by simp
qed

text \<open>
  Claim C7. The legend of the layout that \<open>create_standard_layout\<close> returns holds the
  items the host gave it, each with \<open>showLayerName\<close> and \<open>showHeading\<close> set to
  \<open>False\<close> and otherwise as it was.
\<close>

theorem legend_items_hidden:
  assumes "create_standard_layout h a = Inr lyt"
  shows "\<exists>legend others.
           lyt_surrounds lyt = legend # others \<and> ms_type legend = ''LEGEND'' \<and>
           ms_items legend =
             map (\<lambda>i. i\<lparr>showLayerName := False, showHeading := False\<rparr>)
               (new_legend_items h (la_map_obj a)) \<and>
           (\<forall>item \<in> set (ms_items legend). \<not> showLayerName item \<and> \<not> showHeading item)"
  using create_standard_layout_Inr [OF assms]
  by (auto simp: hide_names_map)

theorem legend_items_hidden_witness:
  "new_legend_items example_layout_host (la_map_obj example_layout_args) =
     [\<lparr>item_layer = ''Land use'', showLayerName = True, showHeading = True\<rparr>,
      \<lparr>item_layer = ''Roads'', showLayerName = True, showHeading = False\<rparr>] \<and>
   map_sum id (\<lambda>lyt. ms_items (hd (lyt_surrounds lyt)))
       (create_standard_layout example_layout_host example_layout_args) =
     Inr [\<lparr>item_layer = ''Land use'', showLayerName = False, showHeading = False\<rparr>,
          \<lparr>item_layer = ''Roads'', showLayerName = False, showHeading = False\<rparr>]"
proof -
  have ni: "new_legend_items example_layout_host (la_map_obj example_layout_args) =
     [\<lparr>item_layer = ''Land use'', showLayerName = True, showHeading = True\<rparr>,
      \<lparr>item_layer = ''Roads'', showLayerName = True, showHeading = False\<rparr>]"
    by (simp add: example_layout_host_def)
  obtain lyt where ok: "create_standard_layout example_layout_host example_layout_args = Inr lyt"
    by (simp add: create_standard_layout_def example_layout_host_def first_style_def Let_def)
  from legend_items_hidden [OF ok] ni
  have "ms_items (hd (lyt_surrounds lyt)) =
     [\<lparr>item_layer = ''Land use'', showLayerName = False, showHeading = False\<rparr>,
      \<lparr>item_layer = ''Roads'', showLayerName = False, showHeading = False\<rparr>]"
    by auto
  with ni ok show ?thesis by simp
qed

text \<open>
  Claim C8, as stated, has every unique-value call without a label mapping and with at
  least one item end in \<open>AttributeError\<close>. Line 72 comes before line 73: where the
  class values are text, \<open>int\<close> raises on the first item and \<open>label_map.get\<close> is
  never looked up.
\<close>

theorem missing_label_map_counterexample:
  "a_label_map none_args = None \<and>
   a_renderer none_args = ''UniqueValueRenderer'' \<and>
   items (hd (regroup text_host [a_variable_name none_args] (renderer blank_symbology))) =
     [\<lparr>item_values = [[''Residential'']], label = ''Residential''\<rparr>] \<and>
   to_int text_host ''Residential'' = None \<and>
   snd (create_single_map text_host empty_text_project none_args) = Inl IntConversionError"
proof -
  have "snd (create_single_map text_host empty_text_project none_args) = Inl IntConversionError"
    by code_simp
  then show ?thesis
    by (simp add: none_args_def uv_args_def text_host_def)
qed

text \<open>
  Claim C8, amended. Without a label mapping a unique-value call ends in
  \<open>AttributeError\<close> for the attribute \<open>get\<close> whenever it gets as far as line 73: the
  dataset loads, \<open>updateRenderer\<close> and the colour ramp lookup go through, the first
  group exists, the sort returns at least one item, and \<open>int\<close> returns on the first
  value of the first item in sorted order. No label is assigned.
\<close>

theorem missing_label_map_AttributeError:
  assumes none: "a_label_map a = None"
      and uv: "a_renderer a = ''UniqueValueRenderer''"
      and l: "load_layer h (a_layer_path a) = Inr l"
      and u: "update_renderer h (a_renderer a) (symbology l) = Inr sy1"
      and c: "color_ramps h (a_color_map a) = ramp # rest"
      and g: "regroup h [a_variable_name a] ((renderer sy1)\<lparr>colorRamp := Some ramp\<rparr>) = g # gs"
      and so: "sort_items (items g) = Inr (it # its)"
      and fv: "first_value it = Inr x"
      and ti: "to_int h x = Some val"
  shows "snd (create_single_map h aprx a) = Inl (AttributeError ''get'')"
proof -
  have "apply_renderer h a (with_ramp sy1 ramp) = Inl (AttributeError ''get'')"
    by (simp add: apply_renderer_def uv with_ramp_def g so fv ti none Let_def)
  then show ?thesis
    by (simp add: create_single_map_eq [OF l u c])
qed

theorem missing_label_map_AttributeError_witness:
  "a_label_map none_args = None \<and>
   a_renderer none_args = ''UniqueValueRenderer'' \<and>
   sort_items [class_item 3, class_item 1, class_item 2] =
     Inr [class_item 1, class_item 2, class_item 3] \<and>
   snd (create_single_map example_host empty_project none_args) = Inl (AttributeError ''get'')"
proof -
  have none: "a_label_map none_args = None"
    by (simp add: none_args_def)
  have uv: "a_renderer none_args = ''UniqueValueRenderer''"
    by (simp add: none_args_def uv_args_def)
  have l: "load_layer example_host (a_layer_path none_args) =
     Inr \<lparr>name = ''d.shp'', isBasemapLayer = False, symbology = blank_symbology\<rparr>"
    by (simp add: none_args_def uv_args_def example_host_def)
  have u: "update_renderer example_host (a_renderer none_args)
             (symbology \<lparr>name = ''d.shp'', isBasemapLayer = False, symbology = blank_symbology\<rparr>) =
           Inr (blank_symbology\<lparr>renderer := (renderer blank_symbology)
                  \<lparr>rtype := ''UniqueValueRenderer''\<rparr>\<rparr>)"
    by (simp add: none_args_def uv_args_def example_host_def)
  have c: "color_ramps example_host (a_color_map none_args) = [''Viridis'']"
    by (simp add: none_args_def uv_args_def example_host_def)
  have r: "regroup example_host fs x =
     [\<lparr>heading = ''g0'', items = [class_item 3, class_item 1, class_item 2]\<rparr>,
      \<lparr>heading = ''g1'', items = [class_item 9, class_item 7]\<rparr>]" for fs x
    by (simp add: example_host_def)
  have so: "sort_items [class_item 3, class_item 1, class_item 2] =
     Inr [class_item 1, class_item 2, class_item (3::int)]"
    by (simp add: sort_items_def first_value_def class_item_def)
  have so': "sort_items (items \<lparr>heading = ''g0'', items = [class_item 3, class_item 1, class_item 2]\<rparr>) =
     Inr [class_item 1, class_item 2, class_item (3::int)]"
    using so by simp
  have fv: "first_value (class_item (1::int)) = Inr 1"
    by (simp add: first_value_def class_item_def)
  have ti: "to_int example_host 1 = Some 1"
    by (simp add: example_host_def)
  from missing_label_map_AttributeError [OF none uv l u c r so' fv ti] none uv so
  show ?thesis by simp
qed

text \<open>
  Claim C9. The \<open>ValueError\<close> for an unsupported renderer is raised after the project
  was changed: the dataset was loaded, \<open>updateRenderer\<close> and the colour ramp lookup
  went through and the colour ramp was put into the symbology the function holds; the
  project the call leaves behind has the new map under its name, holding the layers that
  are not basemap layers, and the loaded layer under its new name. It is not the project
  the call started from.
\<close>

theorem unsupported_renderer_error_after_mutation:
  assumes "create_single_map h aprx a =
             (p, Inl (ValueError (''Unsupported renderer: '' @ a_renderer a)))"
      and "a_renderer a \<noteq> ''UniqueValueRenderer''"
      and "a_renderer a \<noteq> ''GraduatedColorsRenderer''"
  shows "\<exists>l sy1 ramp rest.
           load_layer h (a_layer_path a) = Inr l \<and>
           update_renderer h (a_renderer a) (symbology l) = Inr sy1 \<and>
           color_ramps h (a_color_map a) = ramp # rest \<and>
           prepare_map h aprx a =
             (p, Inr \<lparr>l_m = length (maps aprx),
                     l_layer = length (layer_objs aprx) + length (default_layers h),
                     l_sym = sy1\<lparr>renderer := (renderer sy1)\<lparr>colorRamp := Some ramp\<rparr>\<rparr>\<rparr>) \<and>
           maps p = maps aprx @
             [\<lparr>map_name = a_map_name a,
               map_layers = filter (\<lambda>x. \<not> isBasemapLayer (layer_objs p ! x)) (new_layers h aprx)\<rparr>] \<and>
           layer_objs p = layer_objs aprx @ default_layers h @ [l\<lparr>name := a_layer_name a\<rparr>] \<and>
           p \<noteq> aprx"
proof -
  from prepare_map_fails_or [of h aprx a]
  obtain p0 loc where prep: "prepare_map h aprx a = (p0, Inr loc)"
  proof
    assume "\<exists>p e. prepare_map h aprx a = (p, Inl e)"
    then obtain p' e where f: "prepare_map h aprx a = (p', Inl e)" by blast
    with assms(1) have "e = ValueError (''Unsupported renderer: '' @ a_renderer a)"
      by (simp add: create_single_map_def)
    with prepare_map_Inl [OF f] show ?thesis by simp
  next
    assume "\<exists>p loc. prepare_map h aprx a = (p, Inr loc)"
    then show ?thesis using that by blast
  qed
  from prep assms have p: "p = p0"
    by (simp add: create_single_map_def apply_renderer_unsupported)
  from prepare_map_Inr [OF prep] obtain l sy1 ramp rest where
    l: "load_layer h (a_layer_path a) = Inr l" and
    u: "update_renderer h (a_renderer a) (symbology l) = Inr sy1" and
    c: "color_ramps h (a_color_map a) = ramp # rest" and
    p0: "p0 = prepared_project h aprx a l" and
    loc: "loc = \<lparr>l_m = length (maps aprx),
           l_layer = length (layer_objs aprx) + length (default_layers h),
           l_sym = with_ramp sy1 ramp\<rparr>"
    by blast
  have "length (maps p) \<noteq> length (maps aprx)"
    by (simp add: p p0 prepared_project_def Let_def)
  then have "p \<noteq> aprx" by auto
  moreover have "prepare_map h aprx a =
             (p, Inr \<lparr>l_m = length (maps aprx),
                     l_layer = length (layer_objs aprx) + length (default_layers h),
                     l_sym = sy1\<lparr>renderer := (renderer sy1)\<lparr>colorRamp := Some ramp\<rparr>\<rparr>\<rparr>)"
    using prep by (simp add: p loc with_ramp_def)
  moreover have "maps p = maps aprx @
             [\<lparr>map_name = a_map_name a,
               map_layers = filter (\<lambda>x. \<not> isBasemapLayer (layer_objs p ! x)) (new_layers h aprx)\<rparr>]"
    by (simp add: p p0 prepared_project_def Let_def)
  moreover have "layer_objs p = layer_objs aprx @ default_layers h @ [l\<lparr>name := a_layer_name a\<rparr>]"
    by (simp add: p p0 prepared_project_def Let_def)
  ultimately show ?thesis using l u c by blast
qed

theorem unsupported_renderer_error_after_mutation_witness:
  "snd (create_single_map example_host empty_project foo_args) =
     Inl (ValueError ''Unsupported renderer: Foo'') \<and>
   maps (fst (create_single_map example_host empty_project foo_args)) =
     [\<lparr>map_name = ''M'', map_layers = [1]\<rparr>] \<and>
   map name (layer_objs (fst (create_single_map example_host empty_project foo_args))) =
     [''Topographic'', ''Land use''] \<and>
   fst (create_single_map example_host empty_project foo_args) \<noteq> empty_project"
proof -
  have r: "a_renderer foo_args = ''Foo''"
    by (simp add: foo_args_def uv_args_def)
  have s: "snd (create_single_map example_host empty_project foo_args) =
             Inl (ValueError ''Unsupported renderer: Foo'')"
    by code_simp
  have m: "maps (fst (create_single_map example_host empty_project foo_args)) =
             [\<lparr>map_name = ''M'', map_layers = [1]\<rparr>]"
    by code_simp
  have n: "map name (layer_objs (fst (create_single_map example_host empty_project foo_args))) =
             [''Topographic'', ''Land use'']"
    by code_simp
  have "create_single_map example_host empty_project foo_args =
          (fst (create_single_map example_host empty_project foo_args),
           Inl (ValueError (''Unsupported renderer: '' @ a_renderer foo_args)))"
    using s by (simp add: prod_eq_iff r)
  from unsupported_renderer_error_after_mutation [OF this]
  have "fst (create_single_map example_host empty_project foo_args) \<noteq> empty_project"
    by (auto simp: r)
  with s m n show ?thesis by simp
qed

text \<open>
  Claim C10. A unique-value call that returned has touched the first group only: the
  groups after the first one are the groups the renderer held when its fields were
  assigned, item for item and label for label.
\<close>

theorem other_groups_unchanged:
  assumes ok: "create_single_map h aprx a = (p, Inr (m, lyr))"
      and uv: "a_renderer a = ''UniqueValueRenderer''"
      and l: "load_layer h (a_layer_path a) = Inr l"
      and u: "update_renderer h (a_renderer a) (symbology l) = Inr sy1"
      and c: "color_ramps h (a_color_map a) = ramp # rest"
  shows "groups (renderer (symbology (layer_objs p ! lyr))) \<noteq> [] \<and>
         tl (groups (renderer (symbology (layer_objs p ! lyr)))) =
           tl (regroup h [a_variable_name a] ((renderer sy1)\<lparr>colorRamp := Some ramp\<rparr>))"
  using create_single_map_unique [OF assms] by auto

theorem other_groups_unchanged_witness:
  "snd (create_single_map example_host empty_project uv_args) = Inr (0, 1) \<and>
   tl (regroup example_host [''cls''] (renderer blank_symbology)) =
     [\<lparr>heading = ''g1'', items = [class_item 9, class_item 7]\<rparr>] \<and>
   tl (groups (renderer (symbology
       (layer_objs (fst (create_single_map example_host empty_project uv_args)) ! 1)))) =
     [\<lparr>heading = ''g1'', items = [class_item 9, class_item 7]\<rparr>]"
proof -
  have s: "snd (create_single_map example_host empty_project uv_args) = Inr (0, 1)"
    by code_simp
  have uv: "a_renderer uv_args = ''UniqueValueRenderer''"
    by (simp add: uv_args_def)
  have l: "load_layer example_host (a_layer_path uv_args) =
     Inr \<lparr>name = ''d.shp'', isBasemapLayer = False, symbology = blank_symbology\<rparr>"
    by (simp add: uv_args_def example_host_def)
  have u: "update_renderer example_host (a_renderer uv_args)
             (symbology \<lparr>name = ''d.shp'', isBasemapLayer = False, symbology = blank_symbology\<rparr>) =
           Inr (blank_symbology\<lparr>renderer := (renderer blank_symbology)
                  \<lparr>rtype := ''UniqueValueRenderer''\<rparr>\<rparr>)"
    by (simp add: uv_args_def example_host_def)
  have c: "color_ramps example_host (a_color_map uv_args) = [''Viridis'']"
    by (simp add: uv_args_def example_host_def)
  have v: "a_variable_name uv_args = ''cls''"
    by (simp add: uv_args_def)
  have r: "tl (regroup example_host fs x) =
     [\<lparr>heading = ''g1'', items = [class_item 9, class_item 7]\<rparr>]" for fs x
    by (simp add: example_host_def)
  have "create_single_map example_host empty_project uv_args =
          (fst (create_single_map example_host empty_project uv_args), Inr (0, 1))"
    using s by (simp add: prod_eq_iff)
  from other_groups_unchanged [OF this uv l u c]
  have "tl (groups (renderer (symbology
       (layer_objs (fst (create_single_map example_host empty_project uv_args)) ! 1)))) =
     [\<lparr>heading = ''g1'', items = [class_item 9, class_item 7]\<rparr>]"
    by (simp add: v r)
  with s r show ?thesis by simp
qed

end
